theory Spec2Isabelle
  imports Complex_Main "HOL-Library.Word"
begin

section \<open>The talker node of beginner tutorials (src/talker.cpp)\<close>

text \<open>
  The node is one translation unit: a global string \<open>message\<close>, the service callback
  \<open>say\<close>, and \<open>main\<close>, which reads the requested frequency from the command line,
  replaces a non-positive one by 10 and then runs the publish loop. The embedding below
  follows the file from top to bottom. What the node hands to the ROS client library
  (log lines, published strings, broadcast transforms, service replies) is collected in
  lists of the state record, oldest first; what the library hands to the node (the
  command line, the clock, the service calls dispatched by \<open>ros::spinOnce\<close>) is an
  argument of the model.
\<close>

subsection \<open>Machine integers and their text\<close>

text \<open>
  A C++ \<open>int\<close> is a 32-bit two's complement value here: a \<open>32 word\<close>, read with
  \<open>sint\<close> and compared with the signed orders \<open><s\<close> and \<open>\<le>s\<close>.
\<close>

type_synonym int32 = "32 word"

text \<open>Decimal digits of a natural number, most significant first.\<close>

fun digits :: "nat \<Rightarrow> string" where
  "digits n =
     (if n < 10 then [char_of (48 + n)]
      else digits (n div 10) @ [char_of (48 + n mod 10)])"

declare digits.simps [simp del]

text \<open>
  \<open>ss << count\<close>: the stream's formatted output of an \<open>int\<close>, decimal, with a minus
  sign for a negative value (default flags, classic locale).
\<close>

definition show_int :: "int32 \<Rightarrow> string" where
  "show_int i =
     (if sint i < 0 then CHR ''-'' # digits (nat (- sint i)) else digits (nat (sint i)))"

subsection \<open>The command-line argument: \<open>atoi\<close>\<close>

definition isspace :: "char \<Rightarrow> bool" where
  "isspace c \<longleftrightarrow> (of_char c :: nat) = 32 \<or> (9 \<le> (of_char c :: nat) \<and> (of_char c :: nat) \<le> 13)"

definition isdigit :: "char \<Rightarrow> bool" where
  "isdigit c \<longleftrightarrow> 48 \<le> (of_char c :: nat) \<and> (of_char c :: nat) \<le> 57"

text \<open>The value of the longest prefix of decimal digits, accumulated left to right.\<close>

fun digits_value :: "nat \<Rightarrow> string \<Rightarrow> nat" where
  "digits_value acc [] = acc"
| "digits_value acc (c # cs) =
     (if isdigit c then digits_value (acc * 10 + (of_char c - 48)) cs else acc)"

definition LONG_MAX :: int where
  "LONG_MAX = 2 ^ 63 - 1"

definition LONG_MIN :: int where
  "LONG_MIN = - (2 ^ 63)"

text \<open>
  \<open>strtol(s, NULL, 10)\<close>: white space is skipped, one sign is accepted, the digits that
  follow are converted and the rest of the string is ignored; no digits give 0; a value
  outside \<open>long\<close> saturates.
\<close>

definition strtol :: "string \<Rightarrow> int" where
  "strtol s =
     (case dropWhile isspace s of
        [] \<Rightarrow> 0
      | c # cs \<Rightarrow>
          if c = CHR ''-'' then max LONG_MIN (- int (digits_value 0 cs))
          else if c = CHR ''+'' then min LONG_MAX (int (digits_value 0 cs))
          else min LONG_MAX (int (digits_value 0 (c # cs))))"

text \<open>
  \<open>atoi\<close> is \<open>(int) strtol(s, NULL, 10)\<close> in the C library the node links against;
  the conversion to \<open>int\<close> keeps the low 32 bits. (The C standard leaves \<open>atoi\<close>
  undefined when the value does not fit an \<open>int\<close>.)
\<close>

definition atoi :: "string \<Rightarrow> int32" where
  "atoi s = word_of_int (strtol s)"

subsection \<open>Log lines\<close>

datatype level = DEBUG | INFO | WARN | ERROR | FATAL

type_synonym notice = "level \<times> string"

subsection \<open>Frequency resolution (talker.cpp, lines 84 to 108)\<close>

text \<open>
  \<open>int talkerFrequency = 10; if (argc > 1) talkerFrequency = atoi(argv[1]);\<close>
  The list \<open>argv\<close> is the command line as \<open>ros::init\<close> leaves it, program name
  first, so \<open>argc\<close> is its length.
\<close>

definition requested_frequency :: "string list \<Rightarrow> int32" where
  "requested_frequency argv = (if length argv > 1 then atoi (argv ! 1) else 10)"

text \<open>
  The \<open>if\<close> / \<open>else if\<close> chain of lines 92 to 108: the value of \<open>talkerFrequency\<close>
  after it, and the lines it logs.
\<close>

definition resolve_frequency :: "int32 \<Rightarrow> int32 \<times> notice list" where
  "resolve_frequency talkerFrequency =
     (if 0 <s talkerFrequency then
        (talkerFrequency,
         [(DEBUG, ''Talker publishing at frequency: '' @ show_int talkerFrequency)])
      else if talkerFrequency <s 0 then
        (10,
         [(FATAL, ''Talker expects positive value of frequency''),
          (WARN, ''Talker frequency set to default value of 10Hz'')])
      else if talkerFrequency = 0 then
        (10,
         [(ERROR, ''Talker expects non-zero frequency''),
          (WARN, ''Talker frequency set to default value of 10Hz'')])
      else (talkerFrequency, []))"

definition effective_frequency :: "int32 \<Rightarrow> int32" where
  "effective_frequency f = fst (resolve_frequency f)"

definition frequency_notices :: "int32 \<Rightarrow> notice list" where
  "frequency_notices f = snd (resolve_frequency f)"

text \<open>
  \<open>ros::Rate loop_rate(talkerFrequency)\<close> keeps the cycle time \<open>1.0 / frequency\<close>. The
  library computes it in \<open>double\<close>; here it is the exact quotient.
\<close>

definition expected_cycle_time :: "int32 \<Rightarrow> real" where
  "expected_cycle_time frequency = 1 / real_of_int (sint frequency)"

subsection \<open>Messages, transforms and the state of the node\<close>

text \<open>The service type \<open>modifyTalkerString\<close>: one string each way.\<close>

record request =
  inputStr :: string

record response =
  modifiedStr :: string

text \<open>
  The part of \<open>tf\<close> the node uses. Scalars are real numbers in place of \<open>double\<close>;
  a quaternion lists x, y, z, w.
\<close>

datatype vector3 = Vector3 real real real

datatype quaternion = Quaternion real real real real

record tf_transform =
  origin :: vector3
  rotation :: quaternion

record ros_time =
  sec :: "32 word"
  nsec :: "32 word"

record stamped_transform = tf_transform +
  stamp :: ros_time
  frame_id :: string
  child_frame_id :: string

definition setOrigin :: "vector3 \<Rightarrow> tf_transform \<Rightarrow> tf_transform" where
  "setOrigin v t = t\<lparr>origin := v\<rparr>"

definition setRotation :: "quaternion \<Rightarrow> tf_transform \<Rightarrow> tf_transform" where
  "setRotation q t = t\<lparr>rotation := q\<rparr>"

text \<open>\<open>tf::Quaternion::setRPY\<close>: the quaternion of fixed-axis roll, pitch and yaw.\<close>

definition setRPY :: "real \<Rightarrow> real \<Rightarrow> real \<Rightarrow> quaternion" where
  "setRPY roll pitch yaw =
     (let halfYaw = yaw * (1 / 2);
          halfPitch = pitch * (1 / 2);
          halfRoll = roll * (1 / 2);
          cosYaw = cos halfYaw;
          sinYaw = sin halfYaw;
          cosPitch = cos halfPitch;
          sinPitch = sin halfPitch;
          cosRoll = cos halfRoll;
          sinRoll = sin halfRoll
      in Quaternion
           (sinRoll * cosPitch * cosYaw - cosRoll * sinPitch * sinYaw)
           (cosRoll * sinPitch * cosYaw + sinRoll * cosPitch * sinYaw)
           (cosRoll * cosPitch * sinYaw - sinRoll * sinPitch * cosYaw)
           (cosRoll * cosPitch * cosYaw + sinRoll * sinPitch * sinYaw))"

definition StampedTransform ::
  "tf_transform \<Rightarrow> ros_time \<Rightarrow> string \<Rightarrow> string \<Rightarrow> stamped_transform" where
  "StampedTransform input timestamp frame child =
     \<lparr>origin = origin input, rotation = rotation input,
      stamp = timestamp, frame_id = frame, child_frame_id = child\<rparr>"

text \<open>
  The state: the global \<open>message\<close>, the locals of \<open>main\<close> that live across loop
  iterations (\<open>transform\<close>, \<open>count\<close> and the frequency \<open>loop_rate\<close> was built from),
  and what has left the node so far: log lines, strings published on \<open>chatter\<close>,
  transforms handed to the broadcaster, and the replies of the service
  \<open>modifyTalkerMessage\<close> (the callback's return value and the response).
\<close>

record node =
  message :: string
  transform :: tf_transform
  loop_rate :: int32
  count :: int32
  rosout :: "notice list"
  chatter :: "string list"
  tf_out :: "stamped_transform list"
  replies :: "(bool \<times> response) list"

subsection \<open>The service callback (talker.cpp, lines 48 to 54)\<close>

definition say :: "request \<Rightarrow> response \<Rightarrow> node \<Rightarrow> bool \<times> response \<times> node" where
  "say req res w =
     (let res1 = res\<lparr>modifiedStr := inputStr req\<rparr>;
          w1 = w\<lparr>message := modifiedStr res1\<rparr>;
          w2 = w1\<lparr>rosout := rosout w1 @ [(INFO, ''Default message by talker changed to: '')]\<rparr>
      in (True, res1, w2))"

text \<open>
  \<open>ros::spinOnce()\<close> runs the callbacks queued for the node, on the thread of the
  caller: for each service call waiting, in order of arrival, \<open>say\<close> gets the request and
  an empty response, and its result goes back to the caller. The node has no other
  callback and no other thread of its own, so \<open>say\<close> runs nowhere else.
\<close>

fun spinOnce :: "request list \<Rightarrow> node \<Rightarrow> node" where
  "spinOnce [] w = w"
| "spinOnce (req # reqs) w =
     (case say req \<lparr>modifiedStr = []\<rparr> w of
        (ok, res, w1) \<Rightarrow> spinOnce reqs (w1\<lparr>replies := replies w1 @ [(ok, res)]\<rparr>))"

subsection \<open>\<open>main\<close> (talker.cpp, lines 66 to 183)\<close>

text \<open>
  Lines 77 to 144, up to the loop. \<open>tr\<close> is the content of the local \<open>transform\<close>,
  which its constructor leaves as it finds it.
\<close>

definition startup :: "string list \<Rightarrow> tf_transform \<Rightarrow> node" where
  "startup argv tr =
     (case resolve_frequency (requested_frequency argv) of
        (talkerFrequency, notices) \<Rightarrow>
          \<lparr>message = ''Written By Aman Virmani'', transform = tr,
           loop_rate = talkerFrequency, count = 0, rosout = notices,
           chatter = [], tf_out = [], replies = []\<rparr>)"

text \<open>
  What one iteration of the loop takes from outside: the value of \<open>ros::Time::now()\<close>
  and the service calls that \<open>ros::spinOnce()\<close> finds waiting.
\<close>

record tick_input =
  now :: ros_time
  calls :: "request list"

text \<open>\<open>ROS_INFO("%s", msg.data.c_str())\<close> prints the string up to its first NUL.\<close>

definition c_str :: "string \<Rightarrow> string" where
  "c_str s = takeWhile (\<lambda>c. (of_char c :: nat) \<noteq> 0) s"

text \<open>
  The body of the loop, lines 149 to 179. \<open>loop_rate.sleep()\<close> only waits. \<open>++count\<close>
  is the addition of the machine: at the largest \<open>int\<close> it wraps around (the C++
  standard leaves that case undefined).
\<close>

definition loop_body :: "tick_input \<Rightarrow> node \<Rightarrow> node" where
  "loop_body e w =
     (let data = show_int (count w) @ '' '' @ message w;
          w1 = w\<lparr>rosout := rosout w @ [(INFO, c_str data)]\<rparr>;
          w2 = w1\<lparr>chatter := chatter w1 @ [data]\<rparr>;
          w3 = w2\<lparr>transform := setOrigin (Vector3 0 2 0) (transform w2)\<rparr>;
          q = setRPY 0 0 1;
          w4 = w3\<lparr>transform := setRotation q (transform w3)\<rparr>;
          w5 = w4\<lparr>tf_out := tf_out w4 @
                 [StampedTransform (transform w4) (now e) ''world'' ''talk'']\<rparr>;
          w6 = spinOnce (calls e) w5
      in w6\<lparr>count := count w6 + 1\<rparr>)"

text \<open>
  \<open>while (ros::ok())\<close>: one element of the list for each time the test succeeds, so the
  list is the run of the node up to its shutdown.
\<close>

fun run_loop :: "tick_input list \<Rightarrow> node \<Rightarrow> node" where
  "run_loop [] w = w"
| "run_loop (e # es) w = run_loop es (loop_body e w)"

definition main :: "string list \<Rightarrow> tf_transform \<Rightarrow> tick_input list \<Rightarrow> node" where
  "main argv tr es = run_loop es (startup argv tr)"

subsection \<open>Vocabulary of the properties\<close>

text \<open>
  Tick \<open>T\<close> is iteration \<open>T\<close> of the loop, counted from 0. The writes completed before
  tick \<open>T\<close> begins are the strings of the service calls handled in the iterations before
  it, in the order in which \<open>say\<close> ran.
\<close>

definition writes_before :: "nat \<Rightarrow> tick_input list \<Rightarrow> string list" where
  "writes_before T es = map inputStr (concat (map calls (take T es)))"

text \<open>The value of \<open>message\<close> when tick \<open>T\<close> begins, \<open>m\<close> being its value before the loop.\<close>

definition snapshot :: "string \<Rightarrow> nat \<Rightarrow> tick_input list \<Rightarrow> string" where
  "snapshot m T es = last (m # writes_before T es)"

text \<open>The transform of line 174 with the quaternion of \<open>setRPY(0, 0, 1)\<close> worked out.\<close>

definition fixed_transform :: "ros_time \<Rightarrow> stamped_transform" where
  "fixed_transform t =
     \<lparr>origin = Vector3 0 2 0, rotation = Quaternion 0 0 (sin (1 / 2)) (cos (1 / 2)),
      stamp = t, frame_id = ''world'', child_frame_id = ''talk''\<rparr>"

text \<open>
  The strings \<open>strtol\<close> converts: after white space and at most one sign comes a decimal
  digit.
\<close>

definition has_number :: "string \<Rightarrow> bool" where
  "has_number s =
     (case dropWhile isspace s of
        [] \<Rightarrow> False
      | c # cs \<Rightarrow>
          if c = CHR ''-'' \<or> c = CHR ''+'' then (case cs of [] \<Rightarrow> False | d # _ \<Rightarrow> isdigit d)
          else isdigit c)"

text \<open>Concrete inputs for the scenarios below.\<close>

definition identity_transform :: tf_transform where
  "identity_transform = \<lparr>origin = Vector3 0 0 0, rotation = Quaternion 0 0 0 1\<rparr>"

definition epoch :: ros_time where
  "epoch = \<lparr>sec = 0, nsec = 0\<rparr>"

definition quiet_tick :: tick_input where
  "quiet_tick = \<lparr>now = epoch, calls = []\<rparr>"

section \<open>Properties\<close>

subsection \<open>What the callback, one iteration and the loop do to each part of the state\<close>

lemma spinOnce_message: "message (spinOnce reqs w) = last (message w # map inputStr reqs)"
  by (induction reqs arbitrary: w) (simp_all add: say_def)

lemma spinOnce_count: "count (spinOnce reqs w) = count w"
  by (induction reqs arbitrary: w) (simp_all add: say_def)

lemma spinOnce_chatter: "chatter (spinOnce reqs w) = chatter w"
  by (induction reqs arbitrary: w) (simp_all add: say_def)

lemma spinOnce_tf_out: "tf_out (spinOnce reqs w) = tf_out w"
  by (induction reqs arbitrary: w) (simp_all add: say_def)

lemma spinOnce_loop_rate: "loop_rate (spinOnce reqs w) = loop_rate w"
  by (induction reqs arbitrary: w) (simp_all add: say_def)

lemma spinOnce_replies:
  "replies (spinOnce reqs w) =
     replies w @ map (\<lambda>r. (True, \<lparr>modifiedStr = inputStr r\<rparr>)) reqs"
  by (induction reqs arbitrary: w) (simp_all add: say_def)

lemma setRPY_yaw_1: "setRPY 0 0 1 = Quaternion 0 0 (sin (1 / 2)) (cos (1 / 2))"
  by (simp add: setRPY_def Let_def)

lemma loop_body_count: "count (loop_body e w) = count w + 1"
  by (simp add: loop_body_def Let_def spinOnce_count)

lemma loop_body_message: "message (loop_body e w) = last (message w # map inputStr (calls e))"
  by (simp add: loop_body_def Let_def spinOnce_message)

lemma loop_body_chatter:
  "chatter (loop_body e w) = chatter w @ [show_int (count w) @ '' '' @ message w]"
  by (simp add: loop_body_def Let_def spinOnce_chatter)

lemma loop_body_tf_out: "tf_out (loop_body e w) = tf_out w @ [fixed_transform (now e)]"
  by (simp add: loop_body_def Let_def spinOnce_tf_out setRPY_yaw_1 fixed_transform_def
      StampedTransform_def setOrigin_def setRotation_def)

lemma loop_body_loop_rate: "loop_rate (loop_body e w) = loop_rate w"
  by (simp add: loop_body_def Let_def spinOnce_loop_rate)

lemma loop_body_replies:
  "replies (loop_body e w) =
     replies w @ map (\<lambda>r. (True, \<lparr>modifiedStr = inputStr r\<rparr>)) (calls e)"
  by (simp add: loop_body_def Let_def spinOnce_replies)

lemma run_loop_snoc: "run_loop (es @ [e]) w = loop_body e (run_loop es w)"
  by (induction es arbitrary: w) simp_all

lemma run_loop_count: "count (run_loop es w) = count w + of_nat (length es)"
  by (induction es arbitrary: w) (simp_all add: loop_body_count)

lemma run_loop_loop_rate: "loop_rate (run_loop es w) = loop_rate w"
  by (induction es arbitrary: w) (simp_all add: loop_body_loop_rate)

lemma last_append_cons: "last (m # xs @ ys) = last (last (m # xs) # ys)"
  by (cases ys) simp_all

lemma run_loop_message: "message (run_loop es w) = snapshot (message w) (length es) es"
proof (induction es rule: rev_induct)
  case Nil
  show ?case by (simp add: snapshot_def writes_before_def)
next
  case (snoc e es)
  have "message (run_loop (es @ [e]) w) =
          last (snapshot (message w) (length es) es # map inputStr (calls e))"
    by (simp add: run_loop_snoc loop_body_message snoc.IH)
  also have "\<dots> = snapshot (message w) (length (es @ [e])) (es @ [e])"
    by (simp add: snapshot_def writes_before_def last_append_cons)
  finally show ?case .
qed

lemma snapshot_snoc: "T \<le> length es \<Longrightarrow> snapshot m T (es @ [e]) = snapshot m T es"
  by (simp add: snapshot_def writes_before_def)

lemma run_loop_chatter:
  "chatter (run_loop es w) =
     chatter w @
     map (\<lambda>T. show_int (count w + of_nat T) @ '' '' @ snapshot (message w) T es)
       [0..<length es]"
proof (induction es rule: rev_induct)
  case Nil
  show ?case by simp
next
  case (snoc e es)
  have same: "map (\<lambda>T. show_int (count w + of_nat T) @ '' '' @ snapshot (message w) T (es @ [e]))
                [0..<length es] =
              map (\<lambda>T. show_int (count w + of_nat T) @ '' '' @ snapshot (message w) T es)
                [0..<length es]"
    by (rule map_cong) (simp_all add: snapshot_snoc)
  have "chatter (run_loop (es @ [e]) w) =
          chatter (run_loop es w) @
          [show_int (count (run_loop es w)) @ '' '' @ message (run_loop es w)]"
    by (simp add: run_loop_snoc loop_body_chatter)
  also have "\<dots> = chatter w @
       map (\<lambda>T. show_int (count w + of_nat T) @ '' '' @ snapshot (message w) T es)
         [0..<length es] @
       [show_int (count w + of_nat (length es)) @ '' '' @
        snapshot (message w) (length es) es]"
    by (simp add: snoc.IH run_loop_count run_loop_message)
  also have "\<dots> = chatter w @
       map (\<lambda>T. show_int (count w + of_nat T) @ '' '' @ snapshot (message w) T (es @ [e]))
         [0..<length (es @ [e])]"
    by (simp add: same snapshot_snoc)
  finally show ?case .
qed

lemma run_loop_tf_out:
  "tf_out (run_loop es w) = tf_out w @ map (\<lambda>e. fixed_transform (now e)) es"
  by (induction es arbitrary: w) (simp_all add: loop_body_tf_out)

lemma run_loop_replies:
  "replies (run_loop es w) =
     replies w @ map (\<lambda>r. (True, \<lparr>modifiedStr = inputStr r\<rparr>)) (concat (map calls es))"
  by (induction es arbitrary: w) (simp_all add: loop_body_replies)

subsection \<open>Startup and whole runs\<close>

lemma show_int_0: "show_int 0 = ''0''"
  by code_simp

lemma show_int_1: "show_int 1 = ''1''"
  by code_simp

lemma show_int_10: "show_int 10 = ''10''"
  by code_simp

lemma startup_fields:
  "message (startup argv tr) = ''Written By Aman Virmani''"
  "count (startup argv tr) = 0"
  "chatter (startup argv tr) = []"
  "tf_out (startup argv tr) = []"
  "replies (startup argv tr) = []"
  "loop_rate (startup argv tr) = effective_frequency (requested_frequency argv)"
  "rosout (startup argv tr) = frequency_notices (requested_frequency argv)"
  by (simp_all add: startup_def effective_frequency_def frequency_notices_def split: prod.split)

lemma main_count: "count (main argv tr es) = of_nat (length es)"
  by (simp add: main_def run_loop_count startup_fields)

lemma main_chatter:
  "chatter (main argv tr es) =
     map (\<lambda>T. show_int (of_nat T) @ '' '' @ snapshot ''Written By Aman Virmani'' T es)
       [0..<length es]"
  by (simp add: main_def run_loop_chatter startup_fields)

lemma sint_of_nat_small: "n < 2 ^ 31 \<Longrightarrow> sint (of_nat n :: int32) = int n"
  by (simp add: signed_of_nat signed_take_bit_int_eq_self)

lemma effective_pos: "0 <s effective_frequency f"
  by (auto simp add: effective_frequency_def resolve_frequency_def word_sless_alt
      signed_eq_0_iff)

lemma atoi_no_number:
  assumes "\<not> has_number s"
  shows "atoi s = 0"
proof (cases "dropWhile isspace s")
  case Nil
  show ?thesis unfolding atoi_def strtol_def Nil by simp
next
  case (Cons c cs)
  show ?thesis
  proof (cases "c = CHR ''-'' \<or> c = CHR ''+''")
    case True
    with assms Cons have "digits_value 0 cs = 0"
      by (cases cs) (auto simp add: has_number_def)
    with True Cons show ?thesis
      by (auto simp add: atoi_def strtol_def LONG_MIN_def LONG_MAX_def)
  next
    case False
    with assms Cons have "\<not> isdigit c"
      by (simp add: has_number_def)
    with False Cons show ?thesis
      by (simp add: atoi_def strtol_def LONG_MAX_def)
  qed
qed

subsection \<open>Frequency resolution\<close>

text \<open>
  Claim C1. For every requested frequency \<open>f\<close> (an \<open>int\<close>): a positive \<open>f\<close> is
  the effective frequency, a negative \<open>f\<close> gives 10, and \<open>f = 0\<close> gives 10. The
  resolution is a function of \<open>f\<close> alone.
\<close>

theorem frequency_resolution:
  "(0 <s f \<longrightarrow> effective_frequency f = f) \<and>
   (f <s 0 \<longrightarrow> effective_frequency f = 10) \<and>
   (f = 0 \<longrightarrow> effective_frequency f = 10)"
  by (auto simp add: effective_frequency_def resolve_frequency_def word_sless_alt)

text \<open>The three cases at 25, -5 and 0.\<close>

theorem frequency_resolution_witness:
  "(0 <s (25 :: int32) \<and> effective_frequency 25 = 25) \<and>
   ((- 5 :: int32) <s 0 \<and> effective_frequency (- 5) = 10) \<and>
   effective_frequency 0 = 10"
  using frequency_resolution [of 25] frequency_resolution [of "- 5"]
    frequency_resolution [of 0]
  by (simp add: word_sless_alt)


text \<open>
  Claim C7. Whatever frequency is requested, the effective frequency is positive, so the
  cycle time \<open>1 / effective\<close> of the loop has a non-zero divisor and is positive. This
  holds for the frequency the loop of \<open>main\<close> runs at, for every command line.
\<close>

theorem effective_frequency_positive:
  "0 <s effective_frequency f \<and>
   effective_frequency f \<noteq> 0 \<and>
   0 < expected_cycle_time (effective_frequency f) \<and>
   0 <s loop_rate (main argv tr es) \<and>
   0 < expected_cycle_time (loop_rate (main argv tr es))"
proof -
  have pos: "0 < sint (effective_frequency g)" for g
    using effective_pos [of g] by (simp add: word_sless_alt)
  have nz: "effective_frequency g \<noteq> 0" for g
    using pos [of g] by auto
  have ct: "0 < expected_cycle_time (effective_frequency g)" for g
    using pos [of g] by (simp add: expected_cycle_time_def del: of_int_sint)
  have "loop_rate (main argv tr es) = effective_frequency (requested_frequency argv)"
    by (simp add: main_def run_loop_loop_rate startup_fields)
  with effective_pos nz ct show ?thesis by simp
qed

subsection \<open>The startup argument\<close>

text \<open>
  Claim C6, as the spec states it, fails where the argument is absent: the requested
  frequency is then 10, not 0, and the only log line is the one of the nominal case.
\<close>

theorem startup_argument_counterexample:
  "requested_frequency [''talker''] = 10 \<and>
   requested_frequency [''talker''] \<noteq> 0 \<and>
   rosout (startup [''talker''] identity_transform) =
     [(DEBUG, ''Talker publishing at frequency: 10'')] \<and>
   (ERROR, ''Talker expects non-zero frequency'') \<notin>
     set (rosout (startup [''talker''] identity_transform))"
  by (simp add: startup_fields requested_frequency_def frequency_notices_def
      resolve_frequency_def word_sless_alt show_int_10)

text \<open>
  Claim C6, amended. When the argument is present and holds no number (after white space
  and an optional sign there is no digit), it is read as 0 and the fallback for zero
  applies: effective frequency 10, the error line and the corrective warning. When the
  argument is absent, the requested frequency is 10, the effective frequency is 10 and
  the only line logged is the debug line of the nominal case.
\<close>

theorem startup_argument:
  "(1 < length argv \<and> \<not> has_number (argv ! 1) \<longrightarrow>
      requested_frequency argv = 0 \<and>
      loop_rate (startup argv tr) = 10 \<and>
      rosout (startup argv tr) =
        [(ERROR, ''Talker expects non-zero frequency''),
         (WARN, ''Talker frequency set to default value of 10Hz'')]) \<and>
   (length argv \<le> 1 \<longrightarrow>
      requested_frequency argv = 10 \<and>
      loop_rate (startup argv tr) = 10 \<and>
      rosout (startup argv tr) = [(DEBUG, ''Talker publishing at frequency: 10'')])"
  by (simp add: startup_fields requested_frequency_def frequency_notices_def
      effective_frequency_def resolve_frequency_def word_sless_alt show_int_10
      atoi_no_number)

text \<open>The amended claim at the command lines \<open>talker fast\<close> and \<open>talker\<close>.\<close>

theorem startup_argument_witness:
  "(1 < length [''talker'', ''fast''] \<and> \<not> has_number ([''talker'', ''fast''] ! 1) \<and>
    requested_frequency [''talker'', ''fast''] = 0 \<and>
    loop_rate (startup [''talker'', ''fast''] identity_transform) = 10 \<and>
    rosout (startup [''talker'', ''fast''] identity_transform) =
      [(ERROR, ''Talker expects non-zero frequency''),
       (WARN, ''Talker frequency set to default value of 10Hz'')]) \<and>
   (length [''talker''] \<le> 1 \<and>
    requested_frequency [''talker''] = 10 \<and>
    loop_rate (startup [''talker''] identity_transform) = 10 \<and>
    rosout (startup [''talker''] identity_transform) =
      [(DEBUG, ''Talker publishing at frequency: 10'')])"
  using startup_argument [of "[''talker'', ''fast'']" identity_transform]
    startup_argument [of "[''talker'']" identity_transform]
  by (simp add: has_number_def isspace_def isdigit_def)

subsection \<open>The mutation handler\<close>

text \<open>
  Claim C3. For every input string, the empty one and long ones included, the handler
  returns a response whose \<open>modifiedStr\<close> is the input, and afterwards \<open>message\<close> is
  the input; the same holds for a call that arrives through the service.
\<close>

theorem say_echo_overwrite:
  "modifiedStr (fst (snd (say req res w))) = inputStr req \<and>
   message (snd (snd (say req res w))) = inputStr req \<and>
   replies (spinOnce [req] w) = replies w @ [(True, \<lparr>modifiedStr = inputStr req\<rparr>)] \<and>
   message (spinOnce [req] w) = inputStr req"
  by (simp add: say_def)

text \<open>
  Claim C8. The handler has no failure mode: it returns \<open>true\<close> for every request, for
  every sequence of requests handled by one \<open>ros::spinOnce\<close>, and for every call made
  during a run of the node.
\<close>

theorem say_always_succeeds:
  "fst (say req res w) = True \<and>
   map fst (replies (spinOnce reqs w)) = map fst (replies w) @ replicate (length reqs) True \<and>
   map fst (replies (main argv tr es)) = replicate (length (concat (map calls es))) True"
  by (simp add: say_def spinOnce_replies main_def run_loop_replies startup_fields
      map_replicate_const comp_def)

subsection \<open>The sequence counter\<close>

text \<open>
  Claim C4, as the spec states it, fails at tick number \<open>2 ^ 31\<close>: an \<open>int\<close> cannot hold
  that value, and the counter after that many ticks is below the counter one tick
  before.
\<close>

theorem sequence_counter_counterexample:
  "sint (count (main [] identity_transform (replicate (2 ^ 31) quiet_tick))) \<noteq>
     int (length (replicate (2 ^ 31) quiet_tick)) \<and>
   count (main [] identity_transform (replicate (2 ^ 31) quiet_tick)) <s
     count (main [] identity_transform (replicate (2 ^ 31 - 1) quiet_tick))"
  by (simp add: main_count word_sless_alt)

text \<open>
  Claim C4, amended. The counter starts at 0, each tick adds exactly 1 to it (in the
  arithmetic of \<open>int\<close>), and the handler leaves it alone. After \<open>N\<close> completed ticks
  with \<open>N < 2 ^ 31\<close> it equals \<open>N\<close>, and as long as the next tick stays below that
  bound the counter strictly increases, so it neither repeats nor decreases.
\<close>

theorem sequence_counter:
  "count (startup argv tr) = 0 \<and>
   count (loop_body e w) = count w + 1 \<and>
   count (spinOnce reqs w) = count w \<and>
   (length es < 2 ^ 31 \<longrightarrow> sint (count (main argv tr es)) = int (length es)) \<and>
   (Suc (length es) < 2 ^ 31 \<longrightarrow>
      count (main argv tr es) <s count (main argv tr (es @ [e])))"
proof -
  have "sint (of_nat (length es) :: int32) < sint (of_nat (Suc (length es)) :: int32)"
    if "Suc (length es) < 2 ^ 31"
  proof -
    from that have "length es < 2 ^ 31" by simp
    then have "sint (of_nat (length es) :: int32) = int (length es)"
      by (rule sint_of_nat_small)
    moreover from that have "sint (of_nat (Suc (length es)) :: int32) = int (Suc (length es))"
      by (rule sint_of_nat_small)
    ultimately show ?thesis by simp
  qed
  then show ?thesis
    by (simp add: startup_fields loop_body_count spinOnce_count main_count
        sint_of_nat_small word_sless_alt del: of_nat_Suc)
qed

text \<open>The amended claim on runs of three and of two ticks with no service call.\<close>

theorem sequence_counter_witness:
  "count (startup [] identity_transform) = 0 \<and>
   count (loop_body quiet_tick (startup [] identity_transform)) = 1 \<and>
   (length [quiet_tick, quiet_tick, quiet_tick] < 2 ^ 31 \<and>
    sint (count (main [] identity_transform [quiet_tick, quiet_tick, quiet_tick])) = 3) \<and>
   (Suc (length [quiet_tick, quiet_tick]) < 2 ^ 31 \<and>
    count (main [] identity_transform [quiet_tick, quiet_tick]) <s
      count (main [] identity_transform ([quiet_tick, quiet_tick] @ [quiet_tick])))"
  using
    sequence_counter [of "[]" identity_transform quiet_tick "startup [] identity_transform"
      "[]" "[quiet_tick, quiet_tick, quiet_tick]"]
    sequence_counter [of "[]" identity_transform quiet_tick "startup [] identity_transform"
      "[]" "[quiet_tick, quiet_tick]"]
  by simp

text \<open>
  Claim C10. The counter is a 32-bit \<open>int\<close>: after \<open>N\<close> ticks it is \<open>N\<close> modulo
  \<open>2 ^ 32\<close>, and its value is the tick count exactly when \<open>N < 2 ^ 31\<close>.
\<close>

theorem sequence_counter_width:
  "count (main argv tr es) = of_nat (length es) \<and>
   unat (count (main argv tr es)) = length es mod 2 ^ 32 \<and>
   (sint (count (main argv tr es)) = int (length es) \<longleftrightarrow> length es < 2 ^ 31)"
proof -
  have "length es < 2 ^ 31" if "sint (of_nat (length es) :: int32) = int (length es)"
  proof -
    have "sint (of_nat (length es) :: int32) < 2 ^ 31"
      using sint_lt [of "of_nat (length es) :: int32"] by simp
    with that show ?thesis by simp
  qed
  then show ?thesis
    by (auto simp add: main_count sint_of_nat_small unat_of_nat)
qed

text \<open>Claim C10 after 3 ticks, after \<open>2 ^ 31\<close> ticks and after \<open>2 ^ 32 + 5\<close> ticks.\<close>

theorem sequence_counter_width_witness:
  "(sint (count (main [] identity_transform [quiet_tick, quiet_tick, quiet_tick])) = 3 \<and>
    length [quiet_tick, quiet_tick, quiet_tick] < 2 ^ 31) \<and>
   (sint (count (main [] identity_transform (replicate (2 ^ 31) quiet_tick))) \<noteq> 2 ^ 31 \<and>
    \<not> length (replicate (2 ^ 31) quiet_tick) < 2 ^ 31) \<and>
   unat (count (main [] identity_transform (replicate (2 ^ 32 + 5) quiet_tick))) = 5"
  using
    sequence_counter_width [of "[]" identity_transform "[quiet_tick, quiet_tick, quiet_tick]"]
    sequence_counter_width [of "[]" identity_transform "replicate (2 ^ 31) quiet_tick"]
    sequence_counter_width [of "[]" identity_transform "replicate (2 ^ 32 + 5) quiet_tick"]
  by simp

subsection \<open>The published text\<close>

text \<open>
  Claim C5. Each tick publishes the sequence number, a space and the value of \<open>message\<close>
  at that moment. With the default message the first tick publishes
  \<open>0 Written By Aman Virmani\<close>; a service call with input \<open>hello\<close> handled in that tick
  is answered with \<open>hello\<close>, and the next tick publishes \<open>1 hello\<close>.
\<close>

theorem end_to_end:
  "chatter (main argv tr es) =
     map (\<lambda>T. show_int (of_nat T) @ '' '' @ snapshot ''Written By Aman Virmani'' T es)
       [0..<length es] \<and>
   chatter (loop_body e w) = chatter w @ [show_int (count w) @ '' '' @ message w] \<and>
   chatter (main argv tr [e0]) = [''0 Written By Aman Virmani''] \<and>
   replies (main argv tr [\<lparr>now = t0, calls = [\<lparr>inputStr = ''hello''\<rparr>]\<rparr>]) =
     [(True, \<lparr>modifiedStr = ''hello''\<rparr>)] \<and>
   chatter (main argv tr [\<lparr>now = t0, calls = [\<lparr>inputStr = ''hello''\<rparr>]\<rparr>, e1]) =
     [''0 Written By Aman Virmani'', ''1 hello'']"
proof -
  have "chatter (main argv tr [e0]) = [''0 Written By Aman Virmani'']"
    by (simp add: main_def loop_body_chatter startup_fields show_int_0)
  moreover have "replies (main argv tr [\<lparr>now = t0, calls = [\<lparr>inputStr = ''hello''\<rparr>]\<rparr>]) =
     [(True, \<lparr>modifiedStr = ''hello''\<rparr>)]"
    by (simp add: main_def loop_body_replies startup_fields)
  moreover have "chatter (main argv tr [\<lparr>now = t0, calls = [\<lparr>inputStr = ''hello''\<rparr>]\<rparr>, e1]) =
     [''0 Written By Aman Virmani'', ''1 hello'']"
    by (simp add: main_def loop_body_chatter loop_body_count loop_body_message
        startup_fields show_int_0 show_int_1)
  ultimately show ?thesis
    by (simp only: main_chatter loop_body_chatter simp_thms)
qed

text \<open>
  Claim C2, as the spec states it, fails when two writes complete before the same tick:
  with the writes \<open>a\<close> and then \<open>b\<close> handled during tick 0, tick 1 publishes \<open>1 b\<close>,
  which is not \<open>a\<close>, with or without the sequence number in front.
\<close>

theorem staleness_counterexample:
  "''a'' \<in> set (writes_before 1
       [\<lparr>now = epoch, calls = [\<lparr>inputStr = ''a''\<rparr>, \<lparr>inputStr = ''b''\<rparr>]\<rparr>, quiet_tick]) \<and>
   chatter (main [] identity_transform
       [\<lparr>now = epoch, calls = [\<lparr>inputStr = ''a''\<rparr>, \<lparr>inputStr = ''b''\<rparr>]\<rparr>, quiet_tick]) ! 1
     = ''1 b'' \<and>
   chatter (main [] identity_transform
       [\<lparr>now = epoch, calls = [\<lparr>inputStr = ''a''\<rparr>, \<lparr>inputStr = ''b''\<rparr>]\<rparr>, quiet_tick]) ! 1
     \<noteq> ''a'' \<and>
   chatter (main [] identity_transform
       [\<lparr>now = epoch, calls = [\<lparr>inputStr = ''a''\<rparr>, \<lparr>inputStr = ''b''\<rparr>]\<rparr>, quiet_tick]) ! 1
     \<noteq> ''1 a''"
  by (simp add: main_chatter writes_before_def snapshot_def show_int_0 show_int_1 quiet_tick_def)

text \<open>
  Claim C2, amended. If some write completes before tick \<open>T\<close> begins, tick \<open>T\<close>
  publishes its sequence number, a space and the value of the last such write. A write
  handled during tick \<open>T\<close> is in the text of tick \<open>T + 1\<close>, provided it is the last one
  handled during tick \<open>T\<close>.
\<close>

theorem bounded_staleness:
  "(T < length es \<and> writes_before T es \<noteq> [] \<longrightarrow>
      chatter (main argv tr es) ! T =
        show_int (of_nat T) @ '' '' @ last (writes_before T es)) \<and>
   (Suc T < length es \<and> calls (es ! T) \<noteq> [] \<longrightarrow>
      chatter (main argv tr es) ! Suc T =
        show_int (of_nat (Suc T)) @ '' '' @ inputStr (last (calls (es ! T))))"
proof (intro conjI impI)
  assume a: "T < length es \<and> writes_before T es \<noteq> []"
  then show "chatter (main argv tr es) ! T =
      show_int (of_nat T) @ '' '' @ last (writes_before T es)"
    by (simp add: main_chatter snapshot_def)
next
  assume a: "Suc T < length es \<and> calls (es ! T) \<noteq> []"
  then have "take (Suc T) es = take T es @ [es ! T]"
    by (simp add: take_Suc_conv_app_nth)
  then have "writes_before (Suc T) es = writes_before T es @ map inputStr (calls (es ! T))"
    by (simp add: writes_before_def)
  with a have "last (writes_before (Suc T) es) = inputStr (last (calls (es ! T)))"
    by (simp add: last_map)
  moreover from a have "writes_before (Suc T) es \<noteq> []"
    using \<open>writes_before (Suc T) es = writes_before T es @ map inputStr (calls (es ! T))\<close>
    by simp
  ultimately show "chatter (main argv tr es) ! Suc T =
      show_int (of_nat (Suc T)) @ '' '' @ inputStr (last (calls (es ! T)))"
    using a by (simp add: main_chatter snapshot_def del: of_nat_Suc)
qed

text \<open>The amended claim on the run of the counterexample, at ticks 1 and 0.\<close>

theorem bounded_staleness_witness:
  "(1 < length [\<lparr>now = epoch, calls = [\<lparr>inputStr = ''a''\<rparr>, \<lparr>inputStr = ''b''\<rparr>]\<rparr>, quiet_tick] \<and>
    writes_before 1
      [\<lparr>now = epoch, calls = [\<lparr>inputStr = ''a''\<rparr>, \<lparr>inputStr = ''b''\<rparr>]\<rparr>, quiet_tick] \<noteq> [] \<and>
    chatter (main [] identity_transform
      [\<lparr>now = epoch, calls = [\<lparr>inputStr = ''a''\<rparr>, \<lparr>inputStr = ''b''\<rparr>]\<rparr>, quiet_tick]) ! 1
      = ''1 b'') \<and>
   (Suc 0 < length [\<lparr>now = epoch, calls = [\<lparr>inputStr = ''a''\<rparr>, \<lparr>inputStr = ''b''\<rparr>]\<rparr>, quiet_tick] \<and>
    calls ([\<lparr>now = epoch, calls = [\<lparr>inputStr = ''a''\<rparr>, \<lparr>inputStr = ''b''\<rparr>]\<rparr>, quiet_tick] ! 0) \<noteq> [] \<and>
    chatter (main [] identity_transform
      [\<lparr>now = epoch, calls = [\<lparr>inputStr = ''a''\<rparr>, \<lparr>inputStr = ''b''\<rparr>]\<rparr>, quiet_tick]) ! Suc 0
      = ''1 b'')"
  using
    bounded_staleness [of 1
      "[\<lparr>now = epoch, calls = [\<lparr>inputStr = ''a''\<rparr>, \<lparr>inputStr = ''b''\<rparr>]\<rparr>, quiet_tick]"
      "[]" identity_transform]
    bounded_staleness [of 0
      "[\<lparr>now = epoch, calls = [\<lparr>inputStr = ''a''\<rparr>, \<lparr>inputStr = ''b''\<rparr>]\<rparr>, quiet_tick]"
      "[]" identity_transform]
  by (simp add: writes_before_def show_int_1)

subsection \<open>The broadcast transform\<close>

text \<open>
  Claim C9. Every tick broadcasts one transform, with translation \<open>(0, 2, 0)\<close>, the
  rotation of roll 0, pitch 0 and yaw 1, parent frame \<open>world\<close> and child frame \<open>talk\<close>,
  whatever the service calls and the sequence number are; only the time stamp differs
  from tick to tick.
\<close>

theorem constant_transform:
  "tf_out (main argv tr es) =
     map (\<lambda>e. \<lparr>origin = Vector3 0 2 0, rotation = setRPY 0 0 1, stamp = now e,
               frame_id = ''world'', child_frame_id = ''talk''\<rparr>) es \<and>
   setRPY 0 0 1 = Quaternion 0 0 (sin (1 / 2)) (cos (1 / 2))"
  by (simp add: main_def run_loop_tf_out startup_fields fixed_transform_def setRPY_yaw_1)

end
